theory Spec2Isabelle
  imports Complex_Main
begin

section \<open>JavaScript values used by the two components\<close>

text \<open>
  A JavaScript Number, as far as \<^verbatim>\<open>parseFloat\<close> and \<^verbatim>\<open>isNaN\<close> can tell numbers apart:
  the not-a-number value, the two infinities (the flag says "negative"), and the Number
  the engine rounds a signed decimal literal to. \<open>Dec neg q\<close> stands for that rounded
  Number; \<open>q\<close> is the exact magnitude written in the text. Rounding to a double is not
  modelled, so \<open>Dec\<close> makes no statement about the size of the rounded value.
\<close>

datatype jsnum = NaN | Infinity bool | Dec bool rat

definition isNaN :: "jsnum \<Rightarrow> bool" where
  "isNaN n = (n = NaN)"

subsection \<open>The built-in \<^verbatim>\<open>parseFloat\<close>\<close>

text \<open>
  \<^verbatim>\<open>parseFloat\<close> (ECMAScript, 19.2.4) drops leading white space and line terminators,
  takes the longest prefix of the rest that is a \<^verbatim>\<open>StrDecimalLiteral\<close>
  (an optional sign, then \<^verbatim>\<open>Infinity\<close> or decimal digits with an optional fraction and
  an optional exponent) and returns its value; with no such prefix it returns NaN.
  Strings are lists of 8-bit characters here, so the white space of the model is the
  white space below U+0100.
\<close>

definition is_white :: "char \<Rightarrow> bool" where
  "is_white c = ((of_char c :: nat) \<in> {9, 10, 11, 12, 13, 32, 160})"

definition is_digit :: "char \<Rightarrow> bool" where
  "is_digit c = (c \<in> set ''0123456789'')"

definition digit_val :: "char \<Rightarrow> nat" where
  "digit_val c = of_char c - 48"

definition digits_val :: "string \<Rightarrow> nat" where
  "digits_val ds = foldl (\<lambda>n c. 10 * n + digit_val c) 0 ds"

definition signed_integer :: "int \<Rightarrow> string \<Rightarrow> int" where
  "signed_integer sg cs =
     (let ds = takeWhile is_digit cs in if ds = [] then 0 else sg * int (digits_val ds))"

text \<open>
  The exponent that follows a mantissa: \<^verbatim>\<open>e\<close> or \<^verbatim>\<open>E\<close>, an optional sign and at least
  one digit. Anything else is not part of the literal and counts as exponent 0.
\<close>

definition exponent_part :: "string \<Rightarrow> int" where
  "exponent_part cs =
     (case cs of
        [] \<Rightarrow> 0
      | c # r \<Rightarrow>
          if c = CHR ''e'' \<or> c = CHR ''E'' then
            (case r of
               [] \<Rightarrow> 0
             | s # r' \<Rightarrow>
                 if s = CHR ''+'' then signed_integer 1 r'
                 else if s = CHR ''-'' then signed_integer (- 1) r'
                 else signed_integer 1 r)
          else 0)"

definition scale10 :: "nat \<Rightarrow> int \<Rightarrow> rat" where
  "scale10 m k = (if 0 \<le> k then of_nat m * 10 ^ nat k else of_nat m / 10 ^ nat (- k))"

definition unsigned_literal :: "bool \<Rightarrow> string \<Rightarrow> jsnum" where
  "unsigned_literal neg cs =
     (if take 8 cs = ''Infinity'' then Infinity neg
      else
        (let ip = takeWhile is_digit cs; r1 = dropWhile is_digit cs in
         case r1 of
           [] \<Rightarrow> if ip = [] then NaN else Dec neg (scale10 (digits_val ip) 0)
         | c # r2 \<Rightarrow>
             if c = CHR ''.'' then
               (let fp = takeWhile is_digit r2; r3 = dropWhile is_digit r2 in
                if ip = [] \<and> fp = [] then NaN
                else Dec neg (scale10 (digits_val (ip @ fp))
                                (exponent_part r3 - int (length fp))))
             else if ip = [] then NaN
             else Dec neg (scale10 (digits_val ip) (exponent_part r1))))"

definition parseFloat :: "string \<Rightarrow> jsnum" where
  "parseFloat s =
     (case dropWhile is_white s of
        [] \<Rightarrow> NaN
      | c # r \<Rightarrow>
          if c = CHR ''+'' then unsigned_literal False r
          else if c = CHR ''-'' then unsigned_literal True r
          else unsigned_literal False (c # r))"

text \<open>
  The grammar itself, as ECMAScript writes it (7.1.4.1), to say what "a valid numeric
  prefix" is without running the scanner above.
\<close>

definition DecimalDigits :: "string \<Rightarrow> bool" where
  "DecimalDigits ds = (ds \<noteq> [] \<and> list_all is_digit ds)"

definition ExponentPart_opt :: "string \<Rightarrow> bool" where
  "ExponentPart_opt ex =
     (ex = [] \<or>
      (\<exists>ind ds. (ind = CHR ''e'' \<or> ind = CHR ''E'') \<and> DecimalDigits ds \<and>
         (ex = ind # ds \<or> ex = ind # CHR ''+'' # ds \<or> ex = ind # CHR ''-'' # ds)))"

definition StrUnsignedDecimalLiteral :: "string \<Rightarrow> bool" where
  "StrUnsignedDecimalLiteral p =
     (p = ''Infinity'' \<or>
      (\<exists>ip fp ex. p = ip @ CHR ''.'' # fp @ ex \<and> DecimalDigits ip \<and>
         (fp = [] \<or> DecimalDigits fp) \<and> ExponentPart_opt ex) \<or>
      (\<exists>fp ex. p = CHR ''.'' # fp @ ex \<and> DecimalDigits fp \<and> ExponentPart_opt ex) \<or>
      (\<exists>ip ex. p = ip @ ex \<and> DecimalDigits ip \<and> ExponentPart_opt ex))"

definition StrDecimalLiteral :: "string \<Rightarrow> bool" where
  "StrDecimalLiteral p =
     (StrUnsignedDecimalLiteral p \<or>
      (\<exists>q. StrUnsignedDecimalLiteral q \<and> (p = CHR ''+'' # q \<or> p = CHR ''-'' # q)))"

definition has_numeric_prefix :: "string \<Rightarrow> bool" where
  "has_numeric_prefix s = (\<exists>p r. dropWhile is_white s = p @ r \<and> StrDecimalLiteral p)"

subsection \<open>Callbacks and the state hook\<close>

text \<open>
  A callback is code of the caller. It runs on the caller's state \<open>'w\<close>, which the
  components never read, and it either returns (\<open>None\<close>) or throws (\<open>Some e\<close>).
\<close>

type_synonym exn = string

type_synonym ('a, 'w) callback = "'a \<Rightarrow> 'w \<Rightarrow> exn option \<times> 'w"

text \<open>
  \<^verbatim>\<open>useState(initial)\<close>: the hook's slot is empty at the first render of an instance and
  holds the current state at every later one; the argument is used only while it is empty.
\<close>

definition useState :: "'a \<Rightarrow> 'a option \<Rightarrow> 'a" where
  "useState initial slot = (case slot of None \<Rightarrow> initial | Some current \<Rightarrow> current)"

section \<open>NumericInput\<close>

record 'w NumericInputProps =
  ni_value :: jsnum
  ni_onChange :: "(jsnum, 'w) callback"
  ni_onBlur :: "(jsnum, 'w) callback option"
  ni_placeholder :: "string option"
  ni_className :: "string option"

record input_view =
  in_type :: string
  in_value :: string
  in_placeholder :: "string option"
  in_className :: "string option"

text \<open>
  One mounted NumericInput: the hook's state \<open>inputValue\<close>, the caller's state, and the
  calls the instance has made to its callbacks so far, oldest first.
\<close>

datatype ni_call = OnChange jsnum | OnBlur jsnum

record 'w ni_instance =
  inputValue :: string
  ni_world :: 'w
  ni_calls :: "ni_call list"

text \<open>
  The component function. \<open>toString\<close> is \<^verbatim>\<open>Number.prototype.toString\<close>, which the engine
  supplies; the result is the hook's state and the rendered \<^verbatim>\<open>input\<close> element.
\<close>

definition NumericInput ::
  "(jsnum \<Rightarrow> string) \<Rightarrow> 'w NumericInputProps \<Rightarrow> string option \<Rightarrow> string \<times> input_view" where
  "NumericInput toString props slot =
     (let inputValue = useState (toString (ni_value props)) slot
      in (inputValue,
          \<lparr>in_type = ''number'', in_value = inputValue,
           in_placeholder = ni_placeholder props, in_className = ni_className props\<rparr>))"

definition ni_mount ::
  "(jsnum \<Rightarrow> string) \<Rightarrow> 'w NumericInputProps \<Rightarrow> 'w \<Rightarrow> 'w ni_instance" where
  "ni_mount toString props w =
     \<lparr>inputValue = fst (NumericInput toString props None), ni_world = w, ni_calls = []\<rparr>"

definition ni_rerender ::
  "(jsnum \<Rightarrow> string) \<Rightarrow> 'w NumericInputProps \<Rightarrow> 'w ni_instance \<Rightarrow> 'w ni_instance" where
  "ni_rerender toString props inst =
     inst\<lparr>inputValue := fst (NumericInput toString props (Some (inputValue inst)))\<rparr>"

text \<open>
  \<^verbatim>\<open>handleInputChange\<close>: \<open>newValue\<close> is \<^verbatim>\<open>e.currentTarget.value\<close>. The result is what the
  handler threw, if anything, and the instance after it.
\<close>

definition handleInputChange ::
  "'w NumericInputProps \<Rightarrow> string \<Rightarrow> 'w ni_instance \<Rightarrow> exn option \<times> 'w ni_instance" where
  "handleInputChange props newValue inst =
     (let inst1 = inst\<lparr>inputValue := newValue\<rparr> in
      if \<not> isNaN (parseFloat newValue) then
        (let (thrown, w) = ni_onChange props (parseFloat newValue) (ni_world inst1)
         in (thrown, inst1\<lparr>ni_world := w,
                           ni_calls := ni_calls inst1 @ [OnChange (parseFloat newValue)]\<rparr>))
      else (None, inst1))"

definition handleBlur ::
  "'w NumericInputProps \<Rightarrow> 'w ni_instance \<Rightarrow> exn option \<times> 'w ni_instance" where
  "handleBlur props inst =
     (case ni_onBlur props of
        Some cb \<Rightarrow>
          (let (thrown, w) = cb (parseFloat (inputValue inst)) (ni_world inst)
           in (thrown, inst\<lparr>ni_world := w,
                            ni_calls := ni_calls inst @ [OnBlur (parseFloat (inputValue inst))]\<rparr>))
      | None \<Rightarrow> (None, inst))"

section \<open>Dropdown\<close>

text \<open>
  An option has an identifier (a string or a number), a display name and any further
  attributes the caller likes: the record's extension \<open>'x\<close>.
\<close>

datatype option_id = StrId string | NumId jsnum

record DropdownOption =
  opt_id :: option_id
  opt_name :: string

record ('x, 'e, 'w) DropdownProps =
  dd_options :: "'x DropdownOption_scheme list"
  dd_selectedOption :: "'x DropdownOption_scheme option"
  dd_onSelect :: "('x DropdownOption_scheme, 'w) callback"
  dd_placeholder :: "string option"
  dd_renderOption :: "('x DropdownOption_scheme \<Rightarrow> 'e) option"

subsection \<open>What is rendered\<close>

text \<open>
  The toggle button shows one text child, or nothing when that child is \<^verbatim>\<open>undefined\<close>.
  A menu item carries its key, the option its \<^verbatim>\<open>onMouseDown\<close> closure holds, and its
  child: the custom renderer's element \<open>'e\<close> or the option's name as text.
\<close>

record dropdown_toggle =
  toggle_title :: "string option"

datatype 'e child = Text string | Custom 'e

record ('x, 'e) dropdown_item =
  item_key :: option_id
  item_option :: "'x DropdownOption_scheme"
  item_child :: "'e child"

record ('x, 'e) dropdown_view =
  view_button :: dropdown_toggle
  view_menu :: "('x, 'e) dropdown_item list option"

text \<open>
  Reading a property of \<^verbatim>\<open>null\<close> or \<^verbatim>\<open>undefined\<close> throws a TypeError; \<open>None\<close> is
  either of the two.
\<close>

datatype error = TypeError

definition get_name :: "'x DropdownOption_scheme option \<Rightarrow> error + string" where
  "get_name obj = (case obj of None \<Rightarrow> Inl TypeError | Some option \<Rightarrow> Inr (opt_name option))"

definition DropdownButton ::
  "'x DropdownOption_scheme option \<Rightarrow> string option \<Rightarrow> error + dropdown_toggle" where
  "DropdownButton selectedOption placeholder =
     (if selectedOption \<noteq> None then
        (case get_name selectedOption of
           Inl e \<Rightarrow> Inl e
         | Inr n \<Rightarrow> Inr \<lparr>toggle_title = Some n\<rparr>)
      else Inr \<lparr>toggle_title = placeholder\<rparr>)"

definition DropdownMenu ::
  "'x DropdownOption_scheme list \<Rightarrow> ('x DropdownOption_scheme \<Rightarrow> 'e) option
     \<Rightarrow> ('x, 'e) dropdown_item list" where
  "DropdownMenu options renderOption =
     map (\<lambda>option.
            \<lparr>item_key = opt_id option, item_option = option,
             item_child = (case renderOption of
                             Some render \<Rightarrow> Custom (render option)
                           | None \<Rightarrow> Text (opt_name option))\<rparr>)
         options"

text \<open>
  The component function: the hook's state \<open>isOpen\<close> and the rendered tree, or the
  exception rendering threw. The placeholder defaults to \<^verbatim>\<open>"Select an option"\<close>.
\<close>

definition Dropdown ::
  "('x, 'e, 'w) DropdownProps \<Rightarrow> bool option \<Rightarrow> error + bool \<times> ('x, 'e) dropdown_view" where
  "Dropdown props slot =
     (let isOpen = useState False slot;
          placeholder = (case dd_placeholder props of
                           None \<Rightarrow> ''Select an option''
                         | Some p \<Rightarrow> p)
      in case DropdownButton (dd_selectedOption props) (Some placeholder) of
           Inl e \<Rightarrow> Inl e
         | Inr button \<Rightarrow>
             Inr (isOpen,
                  \<lparr>view_button = button,
                   view_menu = (if isOpen
                                then Some (DropdownMenu (dd_options props) (dd_renderOption props))
                                else None)\<rparr>))"

subsection \<open>Event handlers\<close>

text \<open>
  One mounted Dropdown: its props, the hook's state, the caller's state, and what the
  instance has done so far, oldest first: calls of \<^verbatim>\<open>onSelect\<close> and of \<^verbatim>\<open>setIsOpen\<close>.
\<close>

datatype 'x dd_effect = OnSelect "'x DropdownOption_scheme" | SetIsOpen bool

record ('x, 'e, 'w) dd_instance =
  dd_props :: "('x, 'e, 'w) DropdownProps"
  isOpen :: bool
  dd_world :: 'w
  dd_trace :: "'x dd_effect list"

definition dd_mount :: "('x, 'e, 'w) DropdownProps \<Rightarrow> 'w \<Rightarrow> ('x, 'e, 'w) dd_instance" where
  "dd_mount props w =
     \<lparr>dd_props = props, isOpen = useState False None, dd_world = w, dd_trace = []\<rparr>"

definition setIsOpen :: "bool \<Rightarrow> ('x, 'e, 'w) dd_instance \<Rightarrow> ('x, 'e, 'w) dd_instance" where
  "setIsOpen v inst = inst\<lparr>isOpen := v, dd_trace := dd_trace inst @ [SetIsOpen v]\<rparr>"

definition toggleDropdown :: "('x, 'e, 'w) dd_instance \<Rightarrow> ('x, 'e, 'w) dd_instance" where
  "toggleDropdown inst = setIsOpen (\<not> isOpen inst) inst"

text \<open>The toggle button's \<^verbatim>\<open>onBlur\<close>.\<close>

definition button_onBlur :: "('x, 'e, 'w) dd_instance \<Rightarrow> ('x, 'e, 'w) dd_instance" where
  "button_onBlur inst = setIsOpen False inst"

text \<open>
  \<^verbatim>\<open>handleSelect\<close>: when \<^verbatim>\<open>onSelect\<close> throws, the statement after it is not reached.
\<close>

definition handleSelect ::
  "'x DropdownOption_scheme \<Rightarrow> ('x, 'e, 'w) dd_instance
     \<Rightarrow> exn option \<times> ('x, 'e, 'w) dd_instance" where
  "handleSelect option inst =
     (let (thrown, w) = dd_onSelect (dd_props inst) option (dd_world inst);
          inst1 = inst\<lparr>dd_world := w, dd_trace := dd_trace inst @ [OnSelect option]\<rparr>
      in case thrown of
           Some e \<Rightarrow> (Some e, inst1)
         | None \<Rightarrow> (None, setIsOpen False inst1))"

text \<open>A menu item's \<^verbatim>\<open>onMouseDown\<close>: cancel the event's default action, then select.\<close>

record mouse_event =
  defaultPrevented :: bool

definition preventDefault :: "mouse_event \<Rightarrow> mouse_event" where
  "preventDefault e = e\<lparr>defaultPrevented := True\<rparr>"

definition item_onMouseDown ::
  "'x DropdownOption_scheme \<Rightarrow> mouse_event \<Rightarrow> ('x, 'e, 'w) dd_instance
     \<Rightarrow> exn option \<times> mouse_event \<times> ('x, 'e, 'w) dd_instance" where
  "item_onMouseDown option e inst =
     (let e1 = preventDefault e;
          (thrown, inst1) = handleSelect option inst
      in (thrown, e1, inst1))"

subsection \<open>Events on a mounted Dropdown\<close>

text \<open>
  The host dispatches a pointer press on the \<open>i\<close>-th item of the menu rendered last.
  The item's \<^verbatim>\<open>onMouseDown\<close> listener runs first. The default action of the press comes
  after the listener and only when the listener has not cancelled it: focus moves to
  what was pressed, so the toggle button (which holds the focus while the menu it opened
  is used) gets \<^verbatim>\<open>blur\<close>. With no menu rendered, or no such item, there is nothing to
  press.
\<close>

definition press_item ::
  "nat \<Rightarrow> ('x, 'e, 'w) dd_instance \<Rightarrow> exn option \<times> ('x, 'e, 'w) dd_instance" where
  "press_item i inst =
     (case Dropdown (dd_props inst) (Some (isOpen inst)) of
        Inl err \<Rightarrow> (None, inst)
      | Inr (opn, view) \<Rightarrow>
          (case view_menu view of
             None \<Rightarrow> (None, inst)
           | Some items \<Rightarrow>
               if i < length items then
                 (let (thrown, e, inst1) =
                        item_onMouseDown (item_option (items ! i)) \<lparr>defaultPrevented = False\<rparr> inst
                  in (thrown, if defaultPrevented e then inst1 else button_onBlur inst1))
               else (None, inst)))"

datatype dd_event = ClickToggle | BlurToggle | PressItem nat

definition dispatch ::
  "dd_event \<Rightarrow> ('x, 'e, 'w) dd_instance \<Rightarrow> exn option \<times> ('x, 'e, 'w) dd_instance" where
  "dispatch ev inst =
     (case ev of
        ClickToggle \<Rightarrow> (None, toggleDropdown inst)
      | BlurToggle \<Rightarrow> (None, button_onBlur inst)
      | PressItem i \<Rightarrow> press_item i inst)"

text \<open>
  A sequence of events. What a handler throws goes to the host; the instance stays
  mounted and takes the next event.
\<close>

fun dd_run :: "dd_event list \<Rightarrow> ('x, 'e, 'w) dd_instance \<Rightarrow> ('x, 'e, 'w) dd_instance" where
  "dd_run [] inst = inst"
| "dd_run (ev # evs) inst = dd_run evs (snd (dispatch ev inst))"

text \<open>The arguments of the \<^verbatim>\<open>onSelect\<close> calls in a trace, oldest first.\<close>

fun selections :: "'x dd_effect list \<Rightarrow> 'x DropdownOption_scheme list" where
  "selections [] = []"
| "selections (OnSelect option # effs) = option # selections effs"
| "selections (SetIsOpen v # effs) = selections effs"

section \<open>Sequences of renders, and concrete instances\<close>

text \<open>Later renders of a mounted NumericInput, each with the props the parent passes then.\<close>

fun ni_rerenders ::
  "(jsnum \<Rightarrow> string) \<Rightarrow> 'w NumericInputProps list \<Rightarrow> 'w ni_instance \<Rightarrow> 'w ni_instance" where
  "ni_rerenders toString [] inst = inst"
| "ni_rerenders toString (props # later) inst =
     ni_rerenders toString later (ni_rerender toString props inst)"

text \<open>
  Two callbacks of a caller whose state is the list of the arguments it has been called
  with: one returns, one throws.
\<close>

definition returns_normally :: "('a, 'a list) callback" where
  "returns_normally a w = (None, w @ [a])"

definition throws_error :: "('a, 'a list) callback" where
  "throws_error a w = (Some ''Error'', w @ [a])"

text \<open>The string forms of the Numbers the examples pass as \<^verbatim>\<open>value\<close>.\<close>

definition example_toString :: "jsnum \<Rightarrow> string" where
  "example_toString n =
     (if n = Dec False 5 then ''5'' else if n = Dec False 7 then ''7'' else ''NaN'')"

definition example_input_props :: "jsnum list NumericInputProps" where
  "example_input_props =
     \<lparr>ni_value = Dec False 5, ni_onChange = returns_normally, ni_onBlur = Some returns_normally,
      ni_placeholder = None, ni_className = None\<rparr>"

definition example_input :: "string \<Rightarrow> jsnum list ni_instance" where
  "example_input shown = \<lparr>inputValue = shown, ni_world = [], ni_calls = []\<rparr>"

definition example_options :: "DropdownOption list" where
  "example_options =
     [\<lparr>opt_id = NumId (Dec False 1), opt_name = ''A''\<rparr>,
      \<lparr>opt_id = NumId (Dec False 2), opt_name = ''B''\<rparr>]"

definition example_props ::
  "(DropdownOption, DropdownOption list) callback
     \<Rightarrow> (unit, string, DropdownOption list) DropdownProps" where
  "example_props cb =
     \<lparr>dd_options = example_options, dd_selectedOption = None, dd_onSelect = cb,
      dd_placeholder = None, dd_renderOption = None\<rparr>"

text \<open>A Dropdown with the two options, mounted and opened by one click on its toggle.\<close>

definition example_open ::
  "(DropdownOption, DropdownOption list) callback
     \<Rightarrow> (unit, string, DropdownOption list) dd_instance" where
  "example_open cb = toggleDropdown (dd_mount (example_props cb) [])"

definition example_render :: "DropdownOption \<Rightarrow> string" where
  "example_render option = ''<b>'' @ opt_name option @ ''</b>''"

section \<open>\<^verbatim>\<open>parseFloat\<close> fails exactly on strings without a numeric prefix\<close>

lemma unsigned_literal_NaN:
  "unsigned_literal neg cs \<noteq> NaN \<longleftrightarrow>
     take 8 cs = ''Infinity'' \<or> takeWhile is_digit cs \<noteq> [] \<or>
     (\<exists>r2. cs = CHR ''.'' # r2 \<and> takeWhile is_digit r2 \<noteq> [])"
proof (cases "takeWhile is_digit cs = []")
  case True
  then have "dropWhile is_digit cs = cs"
    by (cases cs) (auto split: if_splits)
  with True show ?thesis
    by (auto simp: unsigned_literal_def Let_def split: list.splits)
next
  case False
  then show ?thesis
    by (auto simp: unsigned_literal_def Let_def split: list.splits)
qed

lemma DecimalDigits_takeWhile:
  "DecimalDigits ds \<Longrightarrow> takeWhile is_digit (ds @ rest) \<noteq> []"
  by (cases ds) (auto simp: DecimalDigits_def)

lemma DecimalDigits_prefix:
  "takeWhile is_digit cs \<noteq> [] \<Longrightarrow> DecimalDigits (takeWhile is_digit cs)"
  by (auto simp: DecimalDigits_def list_all_iff dest: set_takeWhileD)

lemma StrUnsigned_digits: "DecimalDigits ip \<Longrightarrow> StrUnsignedDecimalLiteral ip"
proof -
  assume "DecimalDigits ip"
  then have "ip = ip @ [] \<and> DecimalDigits ip \<and> ExponentPart_opt []"
    by (simp add: ExponentPart_opt_def)
  then show ?thesis
    unfolding StrUnsignedDecimalLiteral_def by blast
qed

lemma StrUnsigned_fraction: "DecimalDigits fp \<Longrightarrow> StrUnsignedDecimalLiteral (CHR ''.'' # fp)"
proof -
  assume "DecimalDigits fp"
  then have "CHR ''.'' # fp = CHR ''.'' # fp @ [] \<and> DecimalDigits fp \<and> ExponentPart_opt []"
    by (simp add: ExponentPart_opt_def)
  then show ?thesis
    unfolding StrUnsignedDecimalLiteral_def by blast
qed

lemma unsigned_literal_prefix:
  "unsigned_literal neg cs \<noteq> NaN \<longleftrightarrow> (\<exists>p r. cs = p @ r \<and> StrUnsignedDecimalLiteral p)"
proof
  assume "unsigned_literal neg cs \<noteq> NaN"
  then consider "take 8 cs = ''Infinity''" | "takeWhile is_digit cs \<noteq> []"
    | r2 where "cs = CHR ''.'' # r2" "takeWhile is_digit r2 \<noteq> []"
    by (auto simp: unsigned_literal_NaN)
  then show "\<exists>p r. cs = p @ r \<and> StrUnsignedDecimalLiteral p"
  proof cases
    case 1
    have "cs = take 8 cs @ drop 8 cs" by simp
    with 1 show ?thesis
      unfolding StrUnsignedDecimalLiteral_def by metis
  next
    case 2
    have "cs = takeWhile is_digit cs @ dropWhile is_digit cs" by simp
    moreover have "StrUnsignedDecimalLiteral (takeWhile is_digit cs)"
      using DecimalDigits_prefix [OF 2] by (rule StrUnsigned_digits)
    ultimately show ?thesis by blast
  next
    case 3
    have "cs = (CHR ''.'' # takeWhile is_digit r2) @ dropWhile is_digit r2"
      using 3(1) by simp
    moreover have "StrUnsignedDecimalLiteral (CHR ''.'' # takeWhile is_digit r2)"
      using DecimalDigits_prefix [OF 3(2)] by (rule StrUnsigned_fraction)
    ultimately show ?thesis by blast
  qed
next
  assume "\<exists>p r. cs = p @ r \<and> StrUnsignedDecimalLiteral p"
  then obtain p r where cs: "cs = p @ r" and lit: "StrUnsignedDecimalLiteral p"
    by blast
  from lit consider "p = ''Infinity''"
    | ip rest where "p = ip @ rest" "DecimalDigits ip"
    | fp ex where "p = CHR ''.'' # fp @ ex" "DecimalDigits fp"
    unfolding StrUnsignedDecimalLiteral_def by blast
  then show "unsigned_literal neg cs \<noteq> NaN"
  proof cases
    case 1
    with cs show ?thesis by (simp add: unsigned_literal_NaN)
  next
    case 2
    with cs have "takeWhile is_digit cs \<noteq> []"
      using DecimalDigits_takeWhile [of ip "rest @ r"] by simp
    then show ?thesis by (simp add: unsigned_literal_NaN)
  next
    case 3
    with cs have "cs = CHR ''.'' # (fp @ ex @ r)" "takeWhile is_digit (fp @ ex @ r) \<noteq> []"
      using DecimalDigits_takeWhile [of fp "ex @ r"] by simp_all
    then show ?thesis by (simp add: unsigned_literal_NaN)
  qed
qed

lemma StrUnsignedDecimalLiteral_first:
  assumes "StrUnsignedDecimalLiteral p"
  shows "\<exists>c t. p = c # t \<and> c \<noteq> CHR ''+'' \<and> c \<noteq> CHR ''-''"
proof -
  have digit: "DecimalDigits ds \<Longrightarrow> \<exists>c t. ds = c # t \<and> c \<noteq> CHR ''+'' \<and> c \<noteq> CHR ''-''" for ds
    by (cases ds) (auto simp: DecimalDigits_def is_digit_def)
  from assms show ?thesis
    unfolding StrUnsignedDecimalLiteral_def
    by (auto dest!: digit)
qed

lemma parseFloat_NaN_iff: "isNaN (parseFloat s) \<longleftrightarrow> \<not> has_numeric_prefix s"
proof (cases "dropWhile is_white s")
  case Nil
  have "\<not> StrDecimalLiteral []"
    using StrUnsignedDecimalLiteral_first by (fastforce simp: StrDecimalLiteral_def)
  then show ?thesis
    by (simp add: parseFloat_def isNaN_def has_numeric_prefix_def Nil)
next
  case (Cons c rest)
  show ?thesis
  proof (cases "c = CHR ''+'' \<or> c = CHR ''-''")
    case True
    have "(\<exists>p r. c # rest = p @ r \<and> StrDecimalLiteral p)
            \<longleftrightarrow> (\<exists>q r. rest = q @ r \<and> StrUnsignedDecimalLiteral q)"
    proof
      assume "\<exists>p r. c # rest = p @ r \<and> StrDecimalLiteral p"
      then obtain p r where split: "c # rest = p @ r" and lit: "StrDecimalLiteral p"
        by blast
      from lit split True obtain q where "StrUnsignedDecimalLiteral q" "p = c # q"
        unfolding StrDecimalLiteral_def
        using StrUnsignedDecimalLiteral_first by fastforce
      with split show "\<exists>q r. rest = q @ r \<and> StrUnsignedDecimalLiteral q"
        by auto
    next
      assume "\<exists>q r. rest = q @ r \<and> StrUnsignedDecimalLiteral q"
      then obtain q r where "rest = q @ r" "StrUnsignedDecimalLiteral q"
        by blast
      then have "c # rest = (c # q) @ r" "StrDecimalLiteral (c # q)"
        using True by (auto simp: StrDecimalLiteral_def)
      then show "\<exists>p r. c # rest = p @ r \<and> StrDecimalLiteral p"
        by blast
    qed
    then show ?thesis
      using True unsigned_literal_prefix [of _ rest]
      by (auto simp: parseFloat_def isNaN_def has_numeric_prefix_def Cons)
  next
    case False
    have "(\<exists>p r. c # rest = p @ r \<and> StrDecimalLiteral p)
            \<longleftrightarrow> (\<exists>p r. c # rest = p @ r \<and> StrUnsignedDecimalLiteral p)"
      using False by (auto simp: StrDecimalLiteral_def Cons_eq_append_conv)
    then show ?thesis
      using False unsigned_literal_prefix [of False "c # rest"]
      by (auto simp: parseFloat_def isNaN_def has_numeric_prefix_def Cons)
  qed
qed

lemmas parseFloat_defs = parseFloat_def unsigned_literal_def exponent_part_def
  signed_integer_def digits_val_def digit_val_def is_digit_def is_white_def scale10_def

lemma parseFloat_examples:
  "parseFloat ''5.2'' = Dec False (26 / 5)"
  "parseFloat ''3.5x'' = Dec False (7 / 2)"
  "parseFloat ''12abc'' = Dec False 12"
  "parseFloat ''abc'' = NaN"
  "parseFloat ''x'' = NaN"
  "parseFloat ''Infinity'' = Infinity False"
  by (simp_all add: parseFloat_defs)

section \<open>NumericInput: keystrokes, focus loss, later renders\<close>

text \<open>
  C1. A keystroke that sets the field's text to \<open>s\<close> makes the internal text exactly
  \<open>s\<close>, parseable or not. It calls \<^verbatim>\<open>onChange\<close> once, with \<^verbatim>\<open>parseFloat(s)\<close>, when that
  parse is not NaN, and not at all when it is NaN; the caller's state is then untouched.
  A string with no valid numeric prefix is shown and causes no call.
\<close>

theorem handleInputChange_text_and_onChange:
  "inputValue (snd (handleInputChange props s inst)) = s \<and>
   ni_calls (snd (handleInputChange props s inst)) =
     ni_calls inst @ (if isNaN (parseFloat s) then [] else [OnChange (parseFloat s)]) \<and>
   ni_world (snd (handleInputChange props s inst)) =
     (if isNaN (parseFloat s) then ni_world inst
      else snd (ni_onChange props (parseFloat s) (ni_world inst))) \<and>
   (\<not> has_numeric_prefix s \<longrightarrow>
      ni_calls (snd (handleInputChange props s inst)) = ni_calls inst)"
  by (simp add: handleInputChange_def Let_def parseFloat_NaN_iff split: prod.split)

theorem handleInputChange_text_and_onChange_witness:
  "\<not> has_numeric_prefix ''abc'' \<and>
   inputValue (snd (handleInputChange example_input_props ''abc'' (example_input ''5''))) = ''abc'' \<and>
   ni_calls (snd (handleInputChange example_input_props ''abc'' (example_input ''5''))) = [] \<and>
   inputValue (snd (handleInputChange example_input_props ''5.2'' (example_input ''5''))) = ''5.2'' \<and>
   ni_calls (snd (handleInputChange example_input_props ''5.2'' (example_input ''5'')))
     = [OnChange (Dec False (26 / 5))]"
proof -
  have no_prefix: "\<not> has_numeric_prefix ''abc''"
    using parseFloat_NaN_iff [of "''abc''"] by (simp add: parseFloat_examples isNaN_def)
  show ?thesis
    using no_prefix
      handleInputChange_text_and_onChange [of example_input_props "''abc''" "example_input ''5''"]
      handleInputChange_text_and_onChange [of example_input_props "''5.2''" "example_input ''5''"]
    by (simp add: parseFloat_examples isNaN_def example_input_def)
qed

text \<open>
  C3. When a blur callback was supplied, focus loss calls it once, with
  \<^verbatim>\<open>parseFloat\<close> of the current internal text, NaN included. The handler throws exactly
  what the callback throws: an unparsable text raises nothing.
\<close>

theorem handleBlur_invokes_onBlur_once:
  assumes "ni_onBlur props = Some cb"
  shows "ni_calls (snd (handleBlur props inst))
           = ni_calls inst @ [OnBlur (parseFloat (inputValue inst))] \<and>
         fst (handleBlur props inst) = fst (cb (parseFloat (inputValue inst)) (ni_world inst)) \<and>
         ni_world (snd (handleBlur props inst))
           = snd (cb (parseFloat (inputValue inst)) (ni_world inst))"
  using assms by (simp add: handleBlur_def Let_def split: prod.split)

theorem handleBlur_invokes_onBlur_once_witness:
  "ni_onBlur example_input_props = Some returns_normally \<and>
   ni_calls (snd (handleBlur example_input_props (example_input ''x''))) = [OnBlur NaN] \<and>
   fst (handleBlur example_input_props (example_input ''x'')) = None \<and>
   ni_calls (snd (handleBlur example_input_props (example_input ''3.5x'')))
     = [OnBlur (Dec False (7 / 2))]"
proof -
  have supplied: "ni_onBlur example_input_props = Some returns_normally"
    by (simp add: example_input_props_def)
  show ?thesis
    using supplied
      handleBlur_invokes_onBlur_once [OF supplied, of "example_input ''x''"]
      handleBlur_invokes_onBlur_once [OF supplied, of "example_input ''3.5x''"]
    by (simp add: parseFloat_examples example_input_def returns_normally_def)
qed

lemma ni_rerender_id: "ni_rerender toString props inst = inst"
  by (simp add: ni_rerender_def NumericInput_def useState_def Let_def)

lemma ni_rerenders_id: "ni_rerenders toString later inst = inst"
  by (induction later arbitrary: inst) (simp_all add: ni_rerender_id)

text \<open>
  C9. The internal text is the string form of the \<^verbatim>\<open>value\<close> prop at the first render
  only. Any number of later renders, whatever props they bring, leave the instance as it
  was (text, callback calls, caller's state) and show the same text; focus loss does
  not change the text either.
\<close>

theorem inputValue_seeded_at_first_render_only:
  "inputValue (ni_mount toString props w) = toString (ni_value props) \<and>
   ni_rerenders toString later inst = inst \<and>
   in_value (snd (NumericInput toString props' (Some (inputValue inst)))) = inputValue inst \<and>
   inputValue (snd (handleBlur props inst)) = inputValue inst"
  by (simp add: ni_rerenders_id ni_mount_def NumericInput_def useState_def handleBlur_def Let_def
      split: option.split prod.split)

theorem inputValue_seeded_at_first_render_only_witness:
  "inputValue (ni_mount example_toString example_input_props []) = ''5'' \<and>
   ni_rerenders example_toString
     [example_input_props\<lparr>ni_value := Dec False 7\<rparr>, example_input_props\<lparr>ni_value := NaN\<rparr>]
     (example_input ''5.2'') = example_input ''5.2''"
  using inputValue_seeded_at_first_render_only
          [where toString = example_toString and props = example_input_props and w = "[]"
             and later = "[example_input_props\<lparr>ni_value := Dec False 7\<rparr>,
                           example_input_props\<lparr>ni_value := NaN\<rparr>]"
             and inst = "example_input ''5.2''"
             and props' = "example_input_props\<lparr>ni_value := NaN\<rparr>"]
  by (simp add: ni_mount_def NumericInput_def useState_def example_input_props_def
      example_toString_def)

text \<open>
  C10. The guard of \<^verbatim>\<open>onChange\<close> is "not NaN", not "finite". For every typed text the
  callback is applied to the parse exactly when the parse is not NaN: the handler then
  throws what the callback throws and the caller's state is the one the callback left.
  Typing \<^verbatim>\<open>Infinity\<close> is such a case: the text is stored, the parse is positive
  infinity, which is not NaN, and \<^verbatim>\<open>onChange\<close> is applied to it, once.
\<close>

theorem onChange_fires_for_Infinity:
  "parseFloat ''Infinity'' = Infinity False \<and>
   \<not> isNaN (parseFloat ''Infinity'') \<and>
   ni_calls (snd (handleInputChange props ''Infinity'' inst))
     = ni_calls inst @ [OnChange (Infinity False)] \<and>
   inputValue (snd (handleInputChange props ''Infinity'' inst)) = ''Infinity'' \<and>
   fst (handleInputChange props ''Infinity'' inst)
     = fst (ni_onChange props (Infinity False) (ni_world inst)) \<and>
   ni_world (snd (handleInputChange props ''Infinity'' inst))
     = snd (ni_onChange props (Infinity False) (ni_world inst)) \<and>
   fst (handleInputChange props s inst)
     = (if isNaN (parseFloat s) then None
        else fst (ni_onChange props (parseFloat s) (ni_world inst))) \<and>
   ni_world (snd (handleInputChange props s inst))
     = (if isNaN (parseFloat s) then ni_world inst
        else snd (ni_onChange props (parseFloat s) (ni_world inst)))"
proof -
  have parse: "parseFloat ''Infinity'' = Infinity False"
    by (simp add: parseFloat_examples)
  have at_infinity:
    "handleInputChange props ''Infinity'' inst
       = (fst (ni_onChange props (Infinity False) (ni_world inst)),
          inst\<lparr>inputValue := ''Infinity'',
               ni_world := snd (ni_onChange props (Infinity False) (ni_world inst)),
               ni_calls := ni_calls inst @ [OnChange (Infinity False)]\<rparr>)"
    by (simp add: parse isNaN_def handleInputChange_def split: prod.split)
  have guard:
    "fst (handleInputChange props s inst)
       = (if isNaN (parseFloat s) then None
          else fst (ni_onChange props (parseFloat s) (ni_world inst)))"
    "ni_world (snd (handleInputChange props s inst))
       = (if isNaN (parseFloat s) then ni_world inst
          else snd (ni_onChange props (parseFloat s) (ni_world inst)))"
    by (simp_all add: handleInputChange_def Let_def split: prod.split)
  show ?thesis
    using guard by (simp add: parse isNaN_def at_infinity)
qed

theorem onChange_fires_for_Infinity_witness:
  "inputValue (snd (handleInputChange example_input_props ''Infinity'' (example_input ''5'')))
     = ''Infinity'' \<and>
   fst (handleInputChange example_input_props ''Infinity'' (example_input ''5'')) = None \<and>
   ni_world (snd (handleInputChange example_input_props ''Infinity'' (example_input ''5'')))
     = [Infinity False] \<and>
   ni_world (snd (handleInputChange example_input_props ''abc'' (example_input ''5''))) = []"
  using onChange_fires_for_Infinity
          [of example_input_props "example_input ''5''" "''abc''"]
  by (simp add: parseFloat_examples isNaN_def example_input_props_def example_input_def
      returns_normally_def)

section \<open>Dropdown: rendering\<close>

lemma Dropdown_renders:
  "Dropdown props slot =
     Inr (useState False slot,
          \<lparr>view_button =
             \<lparr>toggle_title =
                (case dd_selectedOption props of
                   Some selected \<Rightarrow> Some (opt_name selected)
                 | None \<Rightarrow> Some (case dd_placeholder props of
                                   None \<Rightarrow> ''Select an option''
                                 | Some p \<Rightarrow> p))\<rparr>,
           view_menu = (if useState False slot
                        then Some (DropdownMenu (dd_options props) (dd_renderOption props))
                        else None)\<rparr>)"
  by (simp add: Dropdown_def DropdownButton_def get_name_def Let_def split: option.split)

lemma DropdownMenu_nth:
  "i < length options \<Longrightarrow> item_option (DropdownMenu options renderOption ! i) = options ! i"
  by (simp add: DropdownMenu_def)

text \<open>
  C6. An open Dropdown renders a menu with one item per option of the list, in the
  order of the list; the item's child is what the custom renderer returns for the option
  when a renderer is supplied, and the option's name as text otherwise.
\<close>

theorem open_menu_lists_options_in_order:
  "\<exists>button items.
     Dropdown props (Some True) = Inr (True, \<lparr>view_button = button, view_menu = Some items\<rparr>) \<and>
     map item_option items = dd_options props \<and>
     map item_child items
       = map (\<lambda>option. case dd_renderOption props of
                           Some render \<Rightarrow> Custom (render option)
                         | None \<Rightarrow> Text (opt_name option))
             (dd_options props)"
  by (simp add: Dropdown_renders useState_def DropdownMenu_def comp_def)

theorem open_menu_lists_options_in_order_witness:
  "(\<exists>button items.
     Dropdown (example_props returns_normally) (Some True)
       = Inr (True, \<lparr>view_button = button, view_menu = Some items\<rparr>) \<and>
     map item_option items = example_options \<and>
     map item_child items = [Text ''A'', Text ''B'']) \<and>
   (\<exists>button items.
     Dropdown (example_props returns_normally\<lparr>dd_renderOption := Some example_render\<rparr>) (Some True)
       = Inr (True, \<lparr>view_button = button, view_menu = Some items\<rparr>) \<and>
     map item_option items = example_options \<and>
     map item_child items = [Custom ''<b>A</b>'', Custom ''<b>B</b>''])"
  using open_menu_lists_options_in_order [of "example_props returns_normally"]
    open_menu_lists_options_in_order
      [of "example_props returns_normally\<lparr>dd_renderOption := Some example_render\<rparr>"]
  by (simp add: example_props_def example_options_def example_render_def)

text \<open>
  C7. A Dropdown with no selected option (\<^verbatim>\<open>null\<close> or absent) renders, and its toggle
  shows the placeholder, \<^verbatim>\<open>"Select an option"\<close> when none is given; with a selected
  option it shows that option's name. Rendering never throws. No handler of either
  component raises an exception of its own: each throws exactly what the caller's
  callback it invokes throws, and nothing when it invokes none.
\<close>

theorem null_selection_shows_placeholder:
  "(\<exists>opn view.
      Dropdown dprops slot = Inr (opn, view) \<and>
      toggle_title (view_button view)
        = (case dd_selectedOption dprops of
             None \<Rightarrow> Some (case dd_placeholder dprops of
                               None \<Rightarrow> ''Select an option''
                             | Some p \<Rightarrow> p)
           | Some selected \<Rightarrow> Some (opt_name selected))) \<and>
   fst (handleSelect option dinst)
     = fst (dd_onSelect (dd_props dinst) option (dd_world dinst)) \<and>
   fst (handleInputChange nprops s ninst)
     = (if isNaN (parseFloat s) then None
        else fst (ni_onChange nprops (parseFloat s) (ni_world ninst))) \<and>
   fst (handleBlur nprops ninst)
     = (case ni_onBlur nprops of
          None \<Rightarrow> None
        | Some cb \<Rightarrow> fst (cb (parseFloat (inputValue ninst)) (ni_world ninst)))"
  by (simp add: Dropdown_renders handleSelect_def handleInputChange_def handleBlur_def Let_def
      split: prod.split option.split)

theorem null_selection_shows_placeholder_witness:
  "dd_selectedOption (example_props returns_normally) = None \<and>
   (\<exists>opn view.
      Dropdown (example_props returns_normally) None = Inr (opn, view) \<and>
      toggle_title (view_button view) = Some ''Select an option'')"
  using null_selection_shows_placeholder
          [of "example_props returns_normally" None "example_options ! 0"
              "example_open returns_normally" example_input_props "''x''" "example_input ''x''"]
  by (simp add: example_props_def)

section \<open>Dropdown: the open/closed state\<close>

lemma selections_append: "selections (effs @ effs') = selections effs @ selections effs'"
  by (induction effs rule: selections.induct) simp_all

text \<open>
  C4. A Dropdown starts Closed, with no menu rendered. Activating the toggle turns
  Closed into Open and Open into Closed; the toggle losing focus gives Closed. Neither
  calls \<^verbatim>\<open>onSelect\<close> or touches the caller's state.
\<close>

theorem dropdown_toggle_machine:
  "isOpen (dd_mount props w) = False \<and>
   (\<exists>view. Dropdown props None = Inr (False, view) \<and> view_menu view = None) \<and>
   isOpen (toggleDropdown inst) = (\<not> isOpen inst) \<and>
   isOpen (button_onBlur inst) = False \<and>
   selections (dd_trace (toggleDropdown inst)) = selections (dd_trace inst) \<and>
   selections (dd_trace (button_onBlur inst)) = selections (dd_trace inst) \<and>
   dd_world (toggleDropdown inst) = dd_world inst \<and>
   dd_world (button_onBlur inst) = dd_world inst"
  by (simp add: dd_mount_def useState_def Dropdown_def DropdownButton_def get_name_def
      toggleDropdown_def button_onBlur_def setIsOpen_def selections_append Let_def
      split: option.split)

theorem dropdown_toggle_machine_witness:
  "\<not> isOpen (dd_mount (example_props returns_normally) []) \<and>
   isOpen (toggleDropdown (dd_mount (example_props returns_normally) [])) \<and>
   \<not> isOpen (toggleDropdown (example_open returns_normally)) \<and>
   \<not> isOpen (button_onBlur (example_open returns_normally)) \<and>
   selections (dd_trace (button_onBlur (example_open returns_normally))) = []"
  using dropdown_toggle_machine
          [of "example_props returns_normally" "[]" "dd_mount (example_props returns_normally) []"]
    dropdown_toggle_machine
          [of "example_props returns_normally" "[]" "example_open returns_normally"]
  by (simp add: example_open_def dd_mount_def useState_def)

text \<open>
  C2, as the code has it. Selecting an option calls \<^verbatim>\<open>onSelect\<close> with it once, and the
  callback has finished (the caller's state is the one it left) before anything is done
  to the open/closed state. When the callback returns, \<^verbatim>\<open>setIsOpen(false)\<close> follows and
  the state is Closed. When the callback throws, the handler throws the same and the
  open/closed state is left as it was.
\<close>

theorem handleSelect_calls_then_closes:
  "selections (dd_trace (snd (handleSelect option inst)))
     = selections (dd_trace inst) @ [option] \<and>
   fst (handleSelect option inst) = fst (dd_onSelect (dd_props inst) option (dd_world inst)) \<and>
   dd_world (snd (handleSelect option inst))
     = snd (dd_onSelect (dd_props inst) option (dd_world inst)) \<and>
   dd_trace (snd (handleSelect option inst))
     = dd_trace inst @ OnSelect option #
         (if fst (dd_onSelect (dd_props inst) option (dd_world inst)) = None
          then [SetIsOpen False] else []) \<and>
   isOpen (snd (handleSelect option inst))
     = (if fst (dd_onSelect (dd_props inst) option (dd_world inst)) = None
        then False else isOpen inst)"
  by (simp add: handleSelect_def setIsOpen_def selections_append Let_def
      split: prod.split option.split)

theorem handleSelect_calls_then_closes_witness:
  "isOpen (example_open returns_normally) \<and>
   fst (dd_onSelect (dd_props (example_open returns_normally)) (example_options ! 1)
          (dd_world (example_open returns_normally))) = None \<and>
   selections (dd_trace (snd (handleSelect (example_options ! 1) (example_open returns_normally))))
     = [\<lparr>opt_id = NumId (Dec False 2), opt_name = ''B''\<rparr>] \<and>
   dd_world (snd (handleSelect (example_options ! 1) (example_open returns_normally)))
     = [\<lparr>opt_id = NumId (Dec False 2), opt_name = ''B''\<rparr>] \<and>
   \<not> isOpen (snd (handleSelect (example_options ! 1) (example_open returns_normally)))"
  using handleSelect_calls_then_closes
          [of "example_options ! 1" "example_open returns_normally"]
  by (simp add: example_open_def example_props_def toggleDropdown_def
      setIsOpen_def dd_mount_def useState_def returns_normally_def example_options_def)

text \<open>
  C2 as stated does not hold: the state after a selection is not Closed whatever the
  callback's outcome. With a callback that throws, the open Dropdown has called it with
  the chosen option and is still open.
\<close>

theorem handleSelect_throw_counterexample:
  "isOpen (example_open throws_error) \<and>
   selections (dd_trace (snd (handleSelect (example_options ! 1) (example_open throws_error))))
     = [example_options ! 1] \<and>
   fst (handleSelect (example_options ! 1) (example_open throws_error)) = Some ''Error'' \<and>
   isOpen (snd (handleSelect (example_options ! 1) (example_open throws_error)))"
  by (simp add: handleSelect_def example_open_def example_props_def toggleDropdown_def
      setIsOpen_def dd_mount_def useState_def throws_error_def example_options_def)

section \<open>Dropdown: pressing an item, and sequences of events\<close>

lemma press_item_open:
  assumes "isOpen inst" and "i < length (dd_options (dd_props inst))"
  shows "press_item i inst = handleSelect (dd_options (dd_props inst) ! i) inst"
  using assms
  by (simp add: press_item_def Dropdown_renders useState_def DropdownMenu_nth
      item_onMouseDown_def preventDefault_def Let_def DropdownMenu_def split: prod.split)

lemma handleSelect_result:
  "handleSelect option inst
     = (fst (dd_onSelect (dd_props inst) option (dd_world inst)),
        inst\<lparr>dd_world := snd (dd_onSelect (dd_props inst) option (dd_world inst)),
             dd_trace := dd_trace inst @ OnSelect option #
               (if fst (dd_onSelect (dd_props inst) option (dd_world inst)) = None
                then [SetIsOpen False] else []),
             isOpen := (if fst (dd_onSelect (dd_props inst) option (dd_world inst)) = None
                        then False else isOpen inst)\<rparr>)"
  by (simp add: handleSelect_def setIsOpen_def Let_def split: prod.split option.split)

lemma item_onMouseDown_result:
  "item_onMouseDown option e inst
     = (fst (handleSelect option inst), e\<lparr>defaultPrevented := True\<rparr>,
        snd (handleSelect option inst))"
  by (simp add: item_onMouseDown_def preventDefault_def Let_def split: prod.split)

text \<open>
  C5. The item's press listener, whatever the event and the option, cancels the default
  action of the press and applies \<^verbatim>\<open>onSelect\<close> to the option: it throws what the callback
  throws and leaves the caller's state as the callback left it. So, on an open Dropdown
  whose toggle holds the focus, a press on the \<open>i\<close>-th item is the selection of the
  \<open>i\<close>-th option and nothing else. \<^verbatim>\<open>onSelect\<close> is applied to that option, once; the
  toggle's blur handler does not run, so the only thing done to the open/closed state
  is the \<^verbatim>\<open>setIsOpen(false)\<close> that follows a callback that returned, and the Dropdown
  stays open when the callback threw.
\<close>

theorem press_item_selection_wins:
  assumes "isOpen inst" and "i < length (dd_options (dd_props inst))"
  shows "defaultPrevented (fst (snd (item_onMouseDown option e inst))) \<and>
         fst (item_onMouseDown option e inst)
           = fst (dd_onSelect (dd_props inst) option (dd_world inst)) \<and>
         dd_world (snd (snd (item_onMouseDown option e inst)))
           = snd (dd_onSelect (dd_props inst) option (dd_world inst)) \<and>
         press_item i inst = handleSelect (dd_options (dd_props inst) ! i) inst \<and>
         selections (dd_trace (snd (press_item i inst)))
           = selections (dd_trace inst) @ [dd_options (dd_props inst) ! i] \<and>
         fst (press_item i inst)
           = fst (dd_onSelect (dd_props inst) (dd_options (dd_props inst) ! i) (dd_world inst)) \<and>
         dd_world (snd (press_item i inst))
           = snd (dd_onSelect (dd_props inst) (dd_options (dd_props inst) ! i) (dd_world inst)) \<and>
         dd_trace (snd (press_item i inst))
           = dd_trace inst @ OnSelect (dd_options (dd_props inst) ! i) #
               (if fst (dd_onSelect (dd_props inst) (dd_options (dd_props inst) ! i)
                          (dd_world inst)) = None
                then [SetIsOpen False] else []) \<and>
         isOpen (snd (press_item i inst))
           = (fst (dd_onSelect (dd_props inst) (dd_options (dd_props inst) ! i) (dd_world inst))
                \<noteq> None)"
proof -
  have listener:
    "defaultPrevented (fst (snd (item_onMouseDown option e inst)))"
    "fst (item_onMouseDown option e inst)
       = fst (dd_onSelect (dd_props inst) option (dd_world inst))"
    "dd_world (snd (snd (item_onMouseDown option e inst)))
       = snd (dd_onSelect (dd_props inst) option (dd_world inst))"
    by (simp_all add: item_onMouseDown_result handleSelect_result)
  have press: "press_item i inst = handleSelect (dd_options (dd_props inst) ! i) inst"
    using assms by (rule press_item_open)
  have pressed:
    "selections (dd_trace (snd (press_item i inst)))
       = selections (dd_trace inst) @ [dd_options (dd_props inst) ! i]"
    "fst (press_item i inst)
       = fst (dd_onSelect (dd_props inst) (dd_options (dd_props inst) ! i) (dd_world inst))"
    "dd_world (snd (press_item i inst))
       = snd (dd_onSelect (dd_props inst) (dd_options (dd_props inst) ! i) (dd_world inst))"
    "dd_trace (snd (press_item i inst))
       = dd_trace inst @ OnSelect (dd_options (dd_props inst) ! i) #
           (if fst (dd_onSelect (dd_props inst) (dd_options (dd_props inst) ! i)
                      (dd_world inst)) = None
            then [SetIsOpen False] else [])"
    "isOpen (snd (press_item i inst))
       = (fst (dd_onSelect (dd_props inst) (dd_options (dd_props inst) ! i) (dd_world inst))
            \<noteq> None)"
    using assms(1) by (simp_all add: press handleSelect_result selections_append)
  show ?thesis
    using listener press pressed by (intro conjI)
qed

theorem press_item_selection_wins_witness:
  "isOpen (example_open returns_normally) \<and>
   1 < length (dd_options (dd_props (example_open returns_normally))) \<and>
   press_item 1 (example_open returns_normally)
     = handleSelect (example_options ! 1) (example_open returns_normally) \<and>
   selections (dd_trace (snd (press_item 1 (example_open returns_normally))))
     = [\<lparr>opt_id = NumId (Dec False 2), opt_name = ''B''\<rparr>] \<and>
   dd_trace (snd (press_item 1 (example_open returns_normally)))
     = [SetIsOpen True, OnSelect \<lparr>opt_id = NumId (Dec False 2), opt_name = ''B''\<rparr>,
        SetIsOpen False] \<and>
   fst (press_item 1 (example_open returns_normally)) = None \<and>
   dd_world (snd (press_item 1 (example_open returns_normally)))
     = [\<lparr>opt_id = NumId (Dec False 2), opt_name = ''B''\<rparr>] \<and>
   \<not> isOpen (snd (press_item 1 (example_open returns_normally)))"
proof -
  have opened: "isOpen (example_open returns_normally)"
    by (simp add: example_open_def toggleDropdown_def setIsOpen_def dd_mount_def useState_def)
  have listed: "1 < length (dd_options (dd_props (example_open returns_normally)))"
    by (simp add: example_open_def example_props_def toggleDropdown_def setIsOpen_def
        dd_mount_def example_options_def)
  show ?thesis
    using opened listed press_item_selection_wins [OF opened listed]
    by (simp add: handleSelect_def example_open_def example_props_def toggleDropdown_def
        setIsOpen_def dd_mount_def useState_def returns_normally_def example_options_def)
qed

lemma handleSelect_props:
  "handleSelect option inst = (thrown, inst') \<Longrightarrow> dd_props inst' = dd_props inst"
  by (auto simp: handleSelect_def setIsOpen_def Let_def split: prod.splits option.splits)

lemma press_item_props: "dd_props (snd (press_item i inst)) = dd_props inst"
  by (auto simp: press_item_def Dropdown_renders item_onMouseDown_def preventDefault_def
      button_onBlur_def setIsOpen_def Let_def split: prod.splits dest: handleSelect_props)

lemma dispatch_props: "dd_props (snd (dispatch ev inst)) = dd_props inst"
  by (cases ev)
    (simp_all add: dispatch_def toggleDropdown_def button_onBlur_def setIsOpen_def
      press_item_props)

text \<open>
  C8. Whatever events a mounted Dropdown receives (toggle clicks, focus losses, presses
  on items), the option list in its props afterwards is the list it was given: every
  option, with every field, as before.
\<close>

theorem options_never_mutated:
  "dd_options (dd_props (dd_run evs inst)) = dd_options (dd_props inst)"
  by (induction evs arbitrary: inst) (simp_all add: dispatch_props)

theorem options_never_mutated_witness:
  "dd_options (dd_props (dd_run [ClickToggle, PressItem 1, ClickToggle, BlurToggle]
                           (dd_mount (example_props returns_normally) [])))
     = [\<lparr>opt_id = NumId (Dec False 1), opt_name = ''A''\<rparr>,
        \<lparr>opt_id = NumId (Dec False 2), opt_name = ''B''\<rparr>]"
  using options_never_mutated
          [of "[ClickToggle, PressItem 1, ClickToggle, BlurToggle]"
              "dd_mount (example_props returns_normally) []"]
  by (simp add: dd_mount_def example_props_def example_options_def)

end
